theory Spec2Isabelle
  imports Main
begin

section \<open>Go values shared by both variants of the adapter\<close>

text \<open>
  A Go \<^verbatim>\<open>[]byte\<close> is either the nil slice or a sequence of bytes; the code tests
  \<^verbatim>\<open>req.Workload != nil\<close>, so the two are kept apart. The same holds for every other
  slice: \<^verbatim>\<open>var resources [][]byte\<close> is nil until the first \<^verbatim>\<open>append\<close>.
\<close>

type_synonym bytes = "char list"
type_synonym go_bytes = "bytes option"
type_synonym 'a slice = "'a list option"

fun elems :: "'a slice \<Rightarrow> 'a list" where
  "elems None = []"
| "elems (Some xs) = xs"

definition append_slice :: "'a slice \<Rightarrow> 'a \<Rightarrow> 'a slice" where
  "append_slice s x = Some (elems s @ [x])"

text \<open>
  Go error values: \<^verbatim>\<open>errors.New(msg)\<close>, \<^verbatim>\<open>fmt.Errorf(msg)\<close> and
  \<^verbatim>\<open>fmt.Errorf(format, err, ...)\<close> with a \<^verbatim>\<open>%w\<close> verb, which wraps \<^verbatim>\<open>err\<close>. The format
  string is kept as written in the source; operands printed with \<^verbatim>\<open>%v\<close> only change the
  rendered text and are not recorded. Errors of the YAML libraries and of the module
  are values of the same type.

  A call either returns its result, returns an error, or panics (a nil pointer
  dereference, or a panic raised inside a library call).
\<close>

datatype error = New string | Errorf string | ErrorfW string error

datatype fault = Error error | Panic string

section \<open>The current variant: pkg/module/module.go\<close>

subsection \<open>Wire and typed messages\<close>

text \<open>
  \<^verbatim>\<open>proto.GeneratorRequest\<close> and \<^verbatim>\<open>proto.GeneratorResponse\<close> are the wire messages. Their
  declarations are generated code outside the sources at hand; the fields are the ones
  the adapter reads and writes.
\<close>

record proto_GeneratorRequest =
  Project :: string
  Stack :: string
  App :: string
  Workload :: go_bytes
  DevConfig :: go_bytes
  PlatformConfig :: go_bytes
  Context :: go_bytes
  SecretStore :: go_bytes

record proto_GeneratorResponse =
  Resources :: "go_bytes slice"
  Patcher :: go_bytes

text \<open>
  The typed request and response. The types \<^verbatim>\<open>v1.Accessory\<close>, \<^verbatim>\<open>v1.GenericConfig\<close>,
  \<^verbatim>\<open>v1.SecretStore\<close>, \<^verbatim>\<open>v1.Resource\<close> and \<^verbatim>\<open>v1.Patcher\<close> belong to an imported package
  and are type parameters \<open>'acc\<close>, \<open>'gc\<close>, \<open>'ss\<close>, \<open>'res\<close>, \<open>'pat\<close> here.
\<close>

record ('acc, 'gc, 'ss) GeneratorRequest =
  Project :: string
  Stack :: string
  App :: string
  Workload :: 'acc
  DevConfig :: 'acc
  PlatformConfig :: 'gc
  Context :: 'gc
  SecretStore :: 'ss

record ('res, 'pat) GeneratorResponse =
  Resources :: "'res slice"
  Patcher :: "'pat option"

subsection \<open>What the adapter imports\<close>

text \<open>
  The YAML libraries and the zero values of the imported types are parameters of the
  model. \<^verbatim>\<open>Unmarshal(in, &v)\<close> takes the bytes and the present value of the destination
  and gives the new value of the destination or an error; \<^verbatim>\<open>Marshal(v)\<close> gives bytes or
  an error. \<^verbatim>\<open>yamlv2\<close> is gopkg.in/yaml.v2 and \<^verbatim>\<open>yaml\<close> is gopkg.in/yaml.v3.
\<close>

record ('acc, 'gc, 'ss, 'res, 'pat) deps =
  zero_Accessory :: 'acc
  zero_GenericConfig :: 'gc
  zero_SecretStore :: 'ss
  yamlv2_Unmarshal_Accessory :: "bytes \<Rightarrow> 'acc \<Rightarrow> error + 'acc"
  yaml_Unmarshal_Accessory :: "bytes \<Rightarrow> 'acc \<Rightarrow> error + 'acc"
  yaml_Unmarshal_GenericConfig :: "bytes \<Rightarrow> 'gc \<Rightarrow> error + 'gc"
  yaml_Unmarshal_SecretStore :: "bytes \<Rightarrow> 'ss \<Rightarrow> error + 'ss"
  yaml_Marshal_GeneratorRequest :: "('acc, 'gc, 'ss) GeneratorRequest \<Rightarrow> error + go_bytes"
  yaml_Marshal_Resource :: "'res \<Rightarrow> error + go_bytes"
  yaml_Marshal_Patcher :: "'pat \<Rightarrow> error + go_bytes"

text \<open>
  A \<^verbatim>\<open>FrameworkModule\<close> is an interface value supplied by the platform engineer. Its
  \<^verbatim>\<open>Generate\<close> may read and change the module's own state \<open>'st\<close>, and returns a pointer
  to a response (possibly nil) or an error.
\<close>

type_synonym ('ctx, 'acc, 'gc, 'ss, 'res, 'pat, 'st) FrameworkModule =
  "'ctx \<Rightarrow> ('acc, 'gc, 'ss) GeneratorRequest \<Rightarrow> 'st
     \<Rightarrow> (error + ('res, 'pat) GeneratorResponse option) \<times> 'st"

subsection \<open>NewGeneratorRequest\<close>

text \<open>
  Each of the five layers is decoded by the same block of the source:
  \<^verbatim>\<open>
  var w T
  if blob != nil {
      if err := Unmarshal(blob, &w); err != nil {
          return nil, fmt.Errorf(msg, err)
      }
  }
  \<close>
  \<open>unmarshal_layer\<close> is that block: \<open>Inl\<close> is the error the function returns with,
  \<open>Inr\<close> the value of \<^verbatim>\<open>w\<close> afterwards.
\<close>

definition unmarshal_layer ::
  "(bytes \<Rightarrow> 'a \<Rightarrow> error + 'a) \<Rightarrow> string \<Rightarrow> go_bytes \<Rightarrow> 'a \<Rightarrow> error + 'a" where
  "unmarshal_layer Unmarshal msg blob zero =
     (case blob of
        None \<Rightarrow> Inr zero
      | Some b \<Rightarrow>
          (case Unmarshal b zero of
             Inl err \<Rightarrow> Inl (ErrorfW msg err)
           | Inr v \<Rightarrow> Inr v))"

text \<open>
  The two \<^verbatim>\<open>log.Infof\<close> calls only write to the log and are left out. The first one
  prints \<^verbatim>\<open>req.String()\<close> before the nil test; \<^verbatim>\<open>String\<close> is the generated method of
  the wire message, which accepts a nil receiver.
\<close>

definition NewGeneratorRequest ::
  "('acc, 'gc, 'ss, 'res, 'pat) deps \<Rightarrow> proto_GeneratorRequest option
     \<Rightarrow> fault + ('acc, 'gc, 'ss) GeneratorRequest" where
  "NewGeneratorRequest im req =
     (case req of
        None \<Rightarrow> Inl (Error (New ''empty generator request''))
      | Some r \<Rightarrow>
     (case unmarshal_layer (yamlv2_Unmarshal_Accessory im) ''unmarshal workload failed. %w''
             (proto_GeneratorRequest.Workload r) (zero_Accessory im) of
        Inl err \<Rightarrow> Inl (Error err)
      | Inr w \<Rightarrow>
     (case unmarshal_layer (yaml_Unmarshal_Accessory im) ''unmarshal dev config failed. %w''
             (proto_GeneratorRequest.DevConfig r) (zero_Accessory im) of
        Inl err \<Rightarrow> Inl (Error err)
      | Inr dc \<Rightarrow>
     (case unmarshal_layer (yaml_Unmarshal_GenericConfig im)
             ''unmarshal platform module config failed. %w''
             (proto_GeneratorRequest.PlatformConfig r) (zero_GenericConfig im) of
        Inl err \<Rightarrow> Inl (Error err)
      | Inr pc \<Rightarrow>
     (case unmarshal_layer (yaml_Unmarshal_GenericConfig im) ''unmarshal context failed. %w''
             (proto_GeneratorRequest.Context r) (zero_GenericConfig im) of
        Inl err \<Rightarrow> Inl (Error err)
      | Inr ctx \<Rightarrow>
     (case unmarshal_layer (yaml_Unmarshal_SecretStore im) ''unmarshal secret store failed. %w''
             (proto_GeneratorRequest.SecretStore r) (zero_SecretStore im) of
        Inl err \<Rightarrow> Inl (Error err)
      | Inr secretStore \<Rightarrow>
     (let result = \<lparr>GeneratorRequest.Project = proto_GeneratorRequest.Project r,
                    Stack = proto_GeneratorRequest.Stack r,
                    App = proto_GeneratorRequest.App r,
                    Workload = w,
                    DevConfig = dc,
                    PlatformConfig = pc,
                    Context = ctx,
                    SecretStore = secretStore\<rparr>
      in case yaml_Marshal_GeneratorRequest im result of
           Inl err \<Rightarrow> Inl (Error (ErrorfW ''marshal new generator request failed. %w'' err))
         | Inr out \<Rightarrow> Inr result)))))))"

subsection \<open>EmptyResponse and Generate\<close>

definition EmptyResponse :: proto_GeneratorResponse where
  "EmptyResponse = \<lparr>proto_GeneratorResponse.Resources = None, Patcher = None\<rparr>"

text \<open>
  The loop over \<^verbatim>\<open>response.Resources\<close>: \<open>resources\<close> is the slice built so far. The
  first failing \<^verbatim>\<open>yaml.Marshal\<close> returns from \<^verbatim>\<open>Generate\<close> with the wrapped error.
\<close>

fun marshal_resources ::
  "('res \<Rightarrow> error + go_bytes) \<Rightarrow> 'res list \<Rightarrow> go_bytes slice \<Rightarrow> error + go_bytes slice" where
  "marshal_resources Marshal [] resources = Inr resources"
| "marshal_resources Marshal (res # rest) resources =
     (case Marshal res of
        Inl err \<Rightarrow> Inl (ErrorfW ''marshal resource failed: %w. res:%v'' err)
      | Inr out \<Rightarrow> marshal_resources Marshal rest (append_slice resources out))"

text \<open>
  \<^verbatim>\<open>FrameworkModuleWrapper.Generate\<close>. The result is the pair the Go function returns
  (a pointer to the wire response, or an error) together with the module's state after
  the call.
\<close>

definition Generate ::
  "('acc, 'gc, 'ss, 'res, 'pat) deps
     \<Rightarrow> ('ctx, 'acc, 'gc, 'ss, 'res, 'pat, 'st) FrameworkModule
     \<Rightarrow> 'ctx \<Rightarrow> proto_GeneratorRequest option \<Rightarrow> 'st
     \<Rightarrow> (fault + proto_GeneratorResponse option) \<times> 'st" where
  "Generate im Module ctx req st =
     (case NewGeneratorRequest im req of
        Inl err \<Rightarrow> (Inl err, st)
      | Inr request \<Rightarrow>
     (case Module ctx request st of
        (Inl err, st') \<Rightarrow> (Inl (Error err), st')
      | (Inr None, st') \<Rightarrow> (Inr (Some EmptyResponse), st')
      | (Inr (Some response), st') \<Rightarrow>
     (case marshal_resources (yaml_Marshal_Resource im)
             (elems (GeneratorResponse.Resources response)) None of
        Inl err \<Rightarrow> (Inl (Error err), st')
      | Inr resources \<Rightarrow>
     (case GeneratorResponse.Patcher response of
        None \<Rightarrow>
          (Inr (Some \<lparr>proto_GeneratorResponse.Resources = resources, Patcher = None\<rparr>), st')
      | Some p \<Rightarrow>
          (case yaml_Marshal_Patcher im p of
             Inl err \<Rightarrow>
               (Inl (Error (ErrorfW ''marshal patcher failed: %w. patcher:%v'' err)), st')
           | Inr patcher \<Rightarrow>
               (Inr (Some \<lparr>proto_GeneratorResponse.Resources = resources,
                           Patcher = patcher\<rparr>), st'))))))"

section \<open>The earlier variant: src/unnamed/part_000\<close>

text \<open>
  The earlier file declares the same names with other fields; its records and functions
  carry the suffix \<open>_early\<close>. \<^verbatim>\<open>workload.Workload\<close> and \<^verbatim>\<open>v1.RuntimeConfigs\<close> are the type
  parameters \<open>'wl\<close> and \<open>'rc\<close>; a Go pointer is an \<open>option\<close>, \<open>None\<close> being nil.
\<close>

record proto_GeneratorRequest_early =
  Project :: string
  Stack :: string
  App :: string
  Workload :: go_bytes
  DevModuleConfig :: go_bytes
  PlatformModuleConfig :: go_bytes
  RuntimeConfig :: go_bytes

record proto_GeneratorResponse_early =
  Resources :: "go_bytes slice"

record ('wl, 'acc, 'gc, 'rc) GeneratorRequest_early =
  Project :: string
  Stack :: string
  App :: string
  Workload :: "'wl option"
  DevModuleConfig :: 'acc
  PlatformModuleConfig :: 'gc
  RuntimeConfig :: "'rc option"

record 'res GeneratorResponse_early =
  Resources :: "'res slice"

text \<open>
  Here \<^verbatim>\<open>yaml\<close> is gopkg.in/yaml.v2. \<^verbatim>\<open>yaml.Unmarshal(req.RuntimeConfig, rc)\<close> is called
  with \<^verbatim>\<open>rc\<close> a nil \<^verbatim>\<open>*v1.RuntimeConfigs\<close>: the pointer is passed by value and there is no
  destination to write to, so the call has no result besides returning nil (\<open>None\<close>),
  returning an error, or panicking.
\<close>

record ('wl, 'acc, 'gc, 'rc, 'res) deps_early =
  zero_Workload :: 'wl
  zero_Accessory :: 'acc
  zero_GenericConfig :: 'gc
  yaml_Unmarshal_Workload :: "bytes \<Rightarrow> 'wl \<Rightarrow> error + 'wl"
  yaml_Unmarshal_Accessory :: "bytes \<Rightarrow> 'acc \<Rightarrow> error + 'acc"
  yaml_Unmarshal_GenericConfig :: "bytes \<Rightarrow> 'gc \<Rightarrow> error + 'gc"
  yaml_Unmarshal_nil_RuntimeConfigs :: "bytes \<Rightarrow> fault option"
  yaml_Marshal_GeneratorRequest ::
    "('wl, 'acc, 'gc, 'rc) GeneratorRequest_early \<Rightarrow> error + go_bytes"
  yaml_Marshal_Resource :: "'res \<Rightarrow> error + go_bytes"

type_synonym ('ctx, 'wl, 'acc, 'gc, 'rc, 'res, 'st) FrameworkModule_early =
  "'ctx \<Rightarrow> ('wl, 'acc, 'gc, 'rc) GeneratorRequest_early \<Rightarrow> 'st
     \<Rightarrow> (error + 'res GeneratorResponse_early option) \<times> 'st"

text \<open>
  There is no nil test on \<^verbatim>\<open>req\<close>: the first field read, \<^verbatim>\<open>req.Workload\<close>, dereferences
  it, which panics when \<^verbatim>\<open>req\<close> is nil.
\<close>

definition NewGeneratorRequest_early ::
  "('wl, 'acc, 'gc, 'rc, 'res) deps_early \<Rightarrow> proto_GeneratorRequest_early option
     \<Rightarrow> fault + ('wl, 'acc, 'gc, 'rc) GeneratorRequest_early" where
  "NewGeneratorRequest_early im req =
     (case req of
        None \<Rightarrow> Inl (Panic ''invalid memory address or nil pointer dereference'')
      | Some r \<Rightarrow>
     (case proto_GeneratorRequest_early.Workload r of
        None \<Rightarrow> Inl (Error (Errorf ''workload in the request is nil''))
      | Some b \<Rightarrow>
     (case deps_early.yaml_Unmarshal_Workload im b (zero_Workload im) of
        Inl err \<Rightarrow> Inl (Error (ErrorfW ''unmarshal workload failed. %w'' err))
      | Inr w \<Rightarrow>
     (case unmarshal_layer (deps_early.yaml_Unmarshal_Accessory im)
             ''unmarshal dev module config failed. %w''
             (proto_GeneratorRequest_early.DevModuleConfig r) (deps_early.zero_Accessory im) of
        Inl err \<Rightarrow> Inl (Error err)
      | Inr dc \<Rightarrow>
     (case unmarshal_layer (deps_early.yaml_Unmarshal_GenericConfig im)
             ''unmarshal platform module config failed. %w''
             (proto_GeneratorRequest_early.PlatformModuleConfig r)
             (deps_early.zero_GenericConfig im) of
        Inl err \<Rightarrow> Inl (Error err)
      | Inr pc \<Rightarrow>
     (case (case proto_GeneratorRequest_early.RuntimeConfig r of
              None \<Rightarrow> None
            | Some b' \<Rightarrow> yaml_Unmarshal_nil_RuntimeConfigs im b') of
        Some (Panic p) \<Rightarrow> Inl (Panic p)
      | Some (Error err) \<Rightarrow> Inl (Error (ErrorfW ''unmarshal runtime config failed. %w'' err))
      | None \<Rightarrow>
     (let rc = None;
          result = \<lparr>GeneratorRequest_early.Project = proto_GeneratorRequest_early.Project r,
                    Stack = proto_GeneratorRequest_early.Stack r,
                    App = proto_GeneratorRequest_early.App r,
                    Workload = Some w,
                    DevModuleConfig = dc,
                    PlatformModuleConfig = pc,
                    RuntimeConfig = rc\<rparr>
      in case deps_early.yaml_Marshal_GeneratorRequest im result of
           Inl err \<Rightarrow> Inl (Error (ErrorfW ''marshal new generator request failed. %w'' err))
         | Inr out \<Rightarrow> Inr result)))))))"

definition EmptyResponse_early :: proto_GeneratorResponse_early where
  "EmptyResponse_early = \<lparr>proto_GeneratorResponse_early.Resources = None\<rparr>"

definition Generate_early ::
  "('wl, 'acc, 'gc, 'rc, 'res) deps_early
     \<Rightarrow> ('ctx, 'wl, 'acc, 'gc, 'rc, 'res, 'st) FrameworkModule_early
     \<Rightarrow> 'ctx \<Rightarrow> proto_GeneratorRequest_early option \<Rightarrow> 'st
     \<Rightarrow> (fault + proto_GeneratorResponse_early option) \<times> 'st" where
  "Generate_early im Module ctx req st =
     (case NewGeneratorRequest_early im req of
        Inl err \<Rightarrow> (Inl err, st)
      | Inr request \<Rightarrow>
     (case Module ctx request st of
        (Inl err, st') \<Rightarrow> (Inl (Error err), st')
      | (Inr None, st') \<Rightarrow> (Inr (Some EmptyResponse_early), st')
      | (Inr (Some fwResources), st') \<Rightarrow>
     (case GeneratorResponse_early.Resources fwResources of
        None \<Rightarrow> (Inr (Some EmptyResponse_early), st')
      | Some rs \<Rightarrow>
     (case marshal_resources (deps_early.yaml_Marshal_Resource im) rs None of
        Inl err \<Rightarrow> (Inl (Error err), st')
      | Inr resources \<Rightarrow>
          (Inr (Some \<lparr>proto_GeneratorResponse_early.Resources = resources\<rparr>), st')))))"

section \<open>Vocabulary for the properties\<close>

text \<open>
  The five configuration layers of the current variant, in the order in which
  \<open>NewGeneratorRequest\<close> decodes them, with the wire field and the format string the
  source uses for each.
\<close>

datatype layer =
  Layer_Workload | Layer_DevConfig | Layer_PlatformConfig | Layer_Context | Layer_SecretStore

definition decode_order :: "layer list" where
  "decode_order =
     [Layer_Workload, Layer_DevConfig, Layer_PlatformConfig, Layer_Context, Layer_SecretStore]"

definition earlier :: "layer \<Rightarrow> layer list" where
  "earlier L = takeWhile (\<lambda>L'. L' \<noteq> L) decode_order"

fun layer_blob :: "layer \<Rightarrow> proto_GeneratorRequest \<Rightarrow> go_bytes" where
  "layer_blob Layer_Workload r = proto_GeneratorRequest.Workload r"
| "layer_blob Layer_DevConfig r = proto_GeneratorRequest.DevConfig r"
| "layer_blob Layer_PlatformConfig r = proto_GeneratorRequest.PlatformConfig r"
| "layer_blob Layer_Context r = proto_GeneratorRequest.Context r"
| "layer_blob Layer_SecretStore r = proto_GeneratorRequest.SecretStore r"

fun layer_message :: "layer \<Rightarrow> string" where
  "layer_message Layer_Workload = ''unmarshal workload failed. %w''"
| "layer_message Layer_DevConfig = ''unmarshal dev config failed. %w''"
| "layer_message Layer_PlatformConfig = ''unmarshal platform module config failed. %w''"
| "layer_message Layer_Context = ''unmarshal context failed. %w''"
| "layer_message Layer_SecretStore = ''unmarshal secret store failed. %w''"

text \<open>
  A blob is malformed when it is present and the library's \<^verbatim>\<open>Unmarshal\<close> returns an
  error on it; \<open>unmarshal_error\<close> is that error, and \<open>None\<close> for a blob that is absent or
  decodes. \<open>unmarshal_value\<close> is the value the destination holds after a decode that
  did not fail.
\<close>

definition unmarshal_error ::
  "(bytes \<Rightarrow> 'a \<Rightarrow> error + 'a) \<Rightarrow> go_bytes \<Rightarrow> 'a \<Rightarrow> error option" where
  "unmarshal_error Unmarshal blob zero =
     (case blob of
        None \<Rightarrow> None
      | Some b \<Rightarrow> (case Unmarshal b zero of Inl err \<Rightarrow> Some err | Inr v \<Rightarrow> None))"

definition unmarshal_value ::
  "(bytes \<Rightarrow> 'a \<Rightarrow> error + 'a) \<Rightarrow> go_bytes \<Rightarrow> 'a \<Rightarrow> 'a" where
  "unmarshal_value Unmarshal blob zero =
     (case blob of
        None \<Rightarrow> zero
      | Some b \<Rightarrow> (case Unmarshal b zero of Inl err \<Rightarrow> zero | Inr v \<Rightarrow> v))"

fun layer_error ::
  "('acc, 'gc, 'ss, 'res, 'pat) deps \<Rightarrow> proto_GeneratorRequest \<Rightarrow> layer \<Rightarrow> error option" where
  "layer_error im r Layer_Workload =
     unmarshal_error (deps.yamlv2_Unmarshal_Accessory im)
       (proto_GeneratorRequest.Workload r) (deps.zero_Accessory im)"
| "layer_error im r Layer_DevConfig =
     unmarshal_error (deps.yaml_Unmarshal_Accessory im)
       (proto_GeneratorRequest.DevConfig r) (deps.zero_Accessory im)"
| "layer_error im r Layer_PlatformConfig =
     unmarshal_error (deps.yaml_Unmarshal_GenericConfig im)
       (proto_GeneratorRequest.PlatformConfig r) (deps.zero_GenericConfig im)"
| "layer_error im r Layer_Context =
     unmarshal_error (deps.yaml_Unmarshal_GenericConfig im)
       (proto_GeneratorRequest.Context r) (deps.zero_GenericConfig im)"
| "layer_error im r Layer_SecretStore =
     unmarshal_error (deps.yaml_Unmarshal_SecretStore im)
       (proto_GeneratorRequest.SecretStore r) (deps.zero_SecretStore im)"

text \<open>The typed request made of the three identifiers and the five decoded layers.\<close>

definition typed_request ::
  "('acc, 'gc, 'ss, 'res, 'pat) deps \<Rightarrow> proto_GeneratorRequest
     \<Rightarrow> ('acc, 'gc, 'ss) GeneratorRequest" where
  "typed_request im r =
     \<lparr>GeneratorRequest.Project = proto_GeneratorRequest.Project r,
      Stack = proto_GeneratorRequest.Stack r,
      App = proto_GeneratorRequest.App r,
      Workload = unmarshal_value (deps.yamlv2_Unmarshal_Accessory im)
                   (proto_GeneratorRequest.Workload r) (deps.zero_Accessory im),
      DevConfig = unmarshal_value (deps.yaml_Unmarshal_Accessory im)
                    (proto_GeneratorRequest.DevConfig r) (deps.zero_Accessory im),
      PlatformConfig = unmarshal_value (deps.yaml_Unmarshal_GenericConfig im)
                         (proto_GeneratorRequest.PlatformConfig r) (deps.zero_GenericConfig im),
      Context = unmarshal_value (deps.yaml_Unmarshal_GenericConfig im)
                  (proto_GeneratorRequest.Context r) (deps.zero_GenericConfig im),
      SecretStore = unmarshal_value (deps.yaml_Unmarshal_SecretStore im)
                      (proto_GeneratorRequest.SecretStore r) (deps.zero_SecretStore im)\<rparr>"

subsection \<open>A small instance to run the model on\<close>

text \<open>
  An instance of the imported parts for running the definitions: every typed value is
  the text of its document, the blob \<open>''{''\<close> is the one malformed document, the empty
  blob leaves the destination as it is, and the value \<open>''!''\<close> is the one that cannot be
  encoded. The module counts its invocations in its state.
\<close>

definition example_Unmarshal :: "bytes \<Rightarrow> string \<Rightarrow> error + string" where
  "example_Unmarshal b v =
     (if b = ''{'' then Inl (New ''yaml: line 1: did not find expected node content'')
      else if b = [] then Inr v
      else Inr b)"

definition example_Marshal :: "string \<Rightarrow> error + go_bytes" where
  "example_Marshal v = (if v = ''!'' then Inl (New ''cannot marshal'') else Inr (Some v))"

definition example_deps :: "(string, string, string, string, string) deps" where
  "example_deps =
     \<lparr>deps.zero_Accessory = [],
      zero_GenericConfig = [],
      zero_SecretStore = [],
      yamlv2_Unmarshal_Accessory = example_Unmarshal,
      yaml_Unmarshal_Accessory = example_Unmarshal,
      yaml_Unmarshal_GenericConfig = example_Unmarshal,
      yaml_Unmarshal_SecretStore = example_Unmarshal,
      yaml_Marshal_GeneratorRequest = (\<lambda>request. Inr (Some (GeneratorRequest.App request))),
      yaml_Marshal_Resource = example_Marshal,
      yaml_Marshal_Patcher = example_Marshal\<rparr>"

definition example_deps_failing_log :: "(string, string, string, string, string) deps" where
  "example_deps_failing_log =
     example_deps\<lparr>deps.yaml_Marshal_GeneratorRequest := (\<lambda>request. Inl (New ''cannot marshal''))\<rparr>"

definition example_request :: proto_GeneratorRequest where
  "example_request =
     \<lparr>proto_GeneratorRequest.Project = ''p'', Stack = ''s'', App = ''a'',
      Workload = None, DevConfig = None, PlatformConfig = None,
      Context = None, SecretStore = None\<rparr>"

definition example_module ::
  "(string, string) GeneratorResponse option
     \<Rightarrow> (unit, string, string, string, string, string, nat) FrameworkModule" where
  "example_module response ctx request calls = (Inr response, Suc calls)"

definition example_deps_early :: "(string, string, string, string, string) deps_early" where
  "example_deps_early =
     \<lparr>deps_early.zero_Workload = [],
      zero_Accessory = [],
      zero_GenericConfig = [],
      yaml_Unmarshal_Workload = example_Unmarshal,
      yaml_Unmarshal_Accessory = example_Unmarshal,
      yaml_Unmarshal_GenericConfig = example_Unmarshal,
      yaml_Unmarshal_nil_RuntimeConfigs =
        (\<lambda>b. if b = [] then None
             else Some (Panic ''reflect: reflect.Value.Set using unaddressable value'')),
      yaml_Marshal_GeneratorRequest =
        (\<lambda>request. Inr (Some (GeneratorRequest_early.App request))),
      yaml_Marshal_Resource = example_Marshal\<rparr>"

definition example_request_early :: proto_GeneratorRequest_early where
  "example_request_early =
     \<lparr>proto_GeneratorRequest_early.Project = ''p'', Stack = ''s'', App = ''a'',
      Workload = Some ''w'', DevModuleConfig = None, PlatformModuleConfig = None,
      RuntimeConfig = Some []\<rparr>"

definition example_request_full :: proto_GeneratorRequest where
  "example_request_full =
     \<lparr>proto_GeneratorRequest.Project = ''p'', Stack = ''s'', App = ''a'',
      Workload = Some ''w'', DevConfig = Some ''d'', PlatformConfig = Some ''pc'',
      Context = Some ''c'', SecretStore = Some ''ss''\<rparr>"

definition example_request_bad_context :: proto_GeneratorRequest where
  "example_request_bad_context = example_request\<lparr>proto_GeneratorRequest.Context := Some ''{''\<rparr>"

definition example_request_three_bad :: proto_GeneratorRequest where
  "example_request_three_bad =
     \<lparr>proto_GeneratorRequest.Project = ''p'', Stack = ''s'', App = ''a'',
      Workload = Some ''w'', DevConfig = Some ''{'', PlatformConfig = None,
      Context = Some ''{'', SecretStore = Some ''{''\<rparr>"

definition example_response :: "(string, string) GeneratorResponse" where
  "example_response =
     \<lparr>GeneratorResponse.Resources = Some [''r1'', ''r2''], Patcher = Some ''patch''\<rparr>"

definition example_response_bad_resource :: "(string, string) GeneratorResponse" where
  "example_response_bad_resource =
     \<lparr>GeneratorResponse.Resources = Some [''r1'', ''!'', ''r3''], Patcher = Some ''patch''\<rparr>"

definition example_response_bad_patch :: "(string, string) GeneratorResponse" where
  "example_response_bad_patch =
     \<lparr>GeneratorResponse.Resources = Some [''r1'', ''r2''], Patcher = Some ''!''\<rparr>"

definition example_request_early_no_workload :: proto_GeneratorRequest_early where
  "example_request_early_no_workload =
     example_request_early\<lparr>proto_GeneratorRequest_early.Workload := None\<rparr>"

section \<open>Lemmas about the decoding and encoding steps\<close>


lemma unmarshal_layer_error:
  "unmarshal_error U blob z = Some e \<Longrightarrow> unmarshal_layer U msg blob z = Inl (ErrorfW msg e)"
  by (auto simp: unmarshal_layer_def unmarshal_error_def split: option.splits sum.splits)

lemma unmarshal_layer_value:
  "unmarshal_error U blob z = None \<Longrightarrow> unmarshal_layer U msg blob z = Inr (unmarshal_value U blob z)"
  by (auto simp: unmarshal_layer_def unmarshal_error_def unmarshal_value_def split: option.splits sum.splits)

lemma NewGeneratorRequest_decoded:
  assumes "\<forall>L. layer_error im r L = None"
  shows "NewGeneratorRequest im (Some r) =
     (case deps.yaml_Marshal_GeneratorRequest im (typed_request im r) of
        Inl err \<Rightarrow> Inl (Error (ErrorfW ''marshal new generator request failed. %w'' err))
      | Inr out \<Rightarrow> Inr (typed_request im r))"
proof -
  from assms have ok:
    "layer_error im r Layer_Workload = None" "layer_error im r Layer_DevConfig = None"
    "layer_error im r Layer_PlatformConfig = None" "layer_error im r Layer_Context = None"
    "layer_error im r Layer_SecretStore = None"
    by blast+
  show ?thesis
    unfolding NewGeneratorRequest_def typed_request_def
    using ok by (simp add: unmarshal_layer_value Let_def)
qed

lemma earlier_simps:
  "earlier Layer_Workload = []"
  "earlier Layer_DevConfig = [Layer_Workload]"
  "earlier Layer_PlatformConfig = [Layer_Workload, Layer_DevConfig]"
  "earlier Layer_Context = [Layer_Workload, Layer_DevConfig, Layer_PlatformConfig]"
  "earlier Layer_SecretStore = [Layer_Workload, Layer_DevConfig, Layer_PlatformConfig, Layer_Context]"
  by (simp_all add: earlier_def decode_order_def)

lemma NewGeneratorRequest_first_failure:
  assumes "layer_error im r L = Some e"
    and "\<forall>L' \<in> set (earlier L). layer_error im r L' = None"
  shows "NewGeneratorRequest im (Some r) = Inl (Error (ErrorfW (layer_message L) e))"
  using assms
  by (cases L)
     (simp_all add: earlier_simps NewGeneratorRequest_def unmarshal_layer_value unmarshal_layer_error)

lemma layer_message_inj: "layer_message L = layer_message L' \<Longrightarrow> L = L'"
  by (cases L; cases L'; simp)


lemma layer_error_absent: "layer_blob L r = None \<Longrightarrow> layer_error im r L = None"
  by (cases L) (simp_all add: unmarshal_error_def)

lemma first_failing_layer:
  assumes "layer_error im r L0 \<noteq> None"
  shows "\<exists>L e. layer_error im r L = Some e \<and> (\<forall>L' \<in> set (earlier L). layer_error im r L' = None)"
proof (cases "layer_error im r Layer_Workload")
  case (Some e)
  then show ?thesis by (intro exI[of _ Layer_Workload] exI[of _ e]) (simp add: earlier_simps)
next
  case w: None
  show ?thesis
  proof (cases "layer_error im r Layer_DevConfig")
    case (Some e)
    with w show ?thesis by (intro exI[of _ Layer_DevConfig] exI[of _ e]) (simp add: earlier_simps)
  next
    case d: None
    show ?thesis
    proof (cases "layer_error im r Layer_PlatformConfig")
      case (Some e)
      with w d show ?thesis
        by (intro exI[of _ Layer_PlatformConfig] exI[of _ e]) (simp add: earlier_simps)
    next
      case p: None
      show ?thesis
      proof (cases "layer_error im r Layer_Context")
        case (Some e)
        with w d p show ?thesis
          by (intro exI[of _ Layer_Context] exI[of _ e]) (simp add: earlier_simps)
      next
        case c: None
        with w d p assms obtain e where "layer_error im r Layer_SecretStore = Some e"
          by (cases L0) auto
        with w d p c show ?thesis
          by (intro exI[of _ Layer_SecretStore] exI[of _ e]) (simp add: earlier_simps)
      qed
    qed
  qed
qed

lemma NewGeneratorRequest_outcome:
  "(\<exists>L e. layer_error im r L = Some e \<and> (\<forall>L' \<in> set (earlier L). layer_error im r L' = None)
        \<and> NewGeneratorRequest im (Some r) = Inl (Error (ErrorfW (layer_message L) e)))
   \<or> ((\<forall>L. layer_error im r L = None)
        \<and> NewGeneratorRequest im (Some r) =
            (case deps.yaml_Marshal_GeneratorRequest im (typed_request im r) of
               Inl err \<Rightarrow> Inl (Error (ErrorfW ''marshal new generator request failed. %w'' err))
             | Inr out \<Rightarrow> Inr (typed_request im r)))"
proof (cases "\<forall>L. layer_error im r L = None")
  case True
  then show ?thesis using NewGeneratorRequest_decoded[OF True] by blast
next
  case False
  then obtain L0 where "layer_error im r L0 \<noteq> None" by blast
  from first_failing_layer[OF this] obtain L e where
    "layer_error im r L = Some e" "\<forall>L' \<in> set (earlier L). layer_error im r L' = None"
    by blast
  then show ?thesis using NewGeneratorRequest_first_failure by blast
qed

lemma marshal_resources_ok:
  "list_all2 (\<lambda>res out. M res = Inr out) rs outs \<Longrightarrow>
   marshal_resources M rs acc = Inr (if rs = [] then acc else Some (elems acc @ outs))"
proof (induction rs outs arbitrary: acc rule: list_all2_induct)
  case Nil
  then show ?case by simp
next
  case (Cons res rs out outs)
  then show ?case by (auto simp: append_slice_def)
qed

lemma marshal_resources_first_failure:
  "K < length rs \<Longrightarrow> \<forall>i<K. \<exists>out. M (rs ! i) = Inr out \<Longrightarrow> M (rs ! K) = Inl e \<Longrightarrow>
   marshal_resources M rs acc = Inl (ErrorfW ''marshal resource failed: %w. res:%v'' e)"
proof (induction rs arbitrary: K acc)
  case Nil
  then show ?case by simp
next
  case (Cons res rs)
  show ?case
  proof (cases K)
    case 0
    with Cons.prems show ?thesis by simp
  next
    case (Suc k)
    with Cons.prems obtain out where out: "M res = Inr out" by fastforce
    from Suc Cons.prems have "k < length rs" "\<forall>i<k. \<exists>out. M (rs ! i) = Inr out" "M (rs ! k) = Inl e"
      by auto
    from Cons.IH[OF this] out show ?thesis by simp
  qed
qed

lemma marshal_resources_some_failure:
  "\<exists>res \<in> set rs. \<exists>e. M res = Inl e \<Longrightarrow>
   \<exists>e. marshal_resources M rs acc = Inl (ErrorfW ''marshal resource failed: %w. res:%v'' e)"
proof (induction rs arbitrary: acc)
  case Nil
  then show ?case by simp
next
  case (Cons res rs)
  show ?case
  proof (cases "M res")
    case (Inl e)
    then show ?thesis by simp
  next
    case (Inr out)
    with Cons.prems have "\<exists>res \<in> set rs. \<exists>e. M res = Inl e" by auto
    from Cons.IH[OF this] Inr show ?thesis by simp
  qed
qed

lemma all_encode_list_all2:
  "\<forall>res \<in> set rs. \<exists>out. M res = Inr out \<Longrightarrow>
   \<exists>outs. list_all2 (\<lambda>res out. M res = Inr out) rs outs"
  by (induction rs) (auto simp: list_all2_Cons1)

text \<open>The current variant rejects a nil request before it reads any field.\<close>

lemma NewGeneratorRequest_nil:
  "NewGeneratorRequest im None = Inl (Error (New ''empty generator request''))"
  by (simp add: NewGeneratorRequest_def)

lemma Generate_nil:
  "Generate im Module ctx None st = (Inl (Error (New ''empty generator request'')), st)"
  by (simp add: Generate_def NewGeneratorRequest_nil)

text \<open>A failed assembly ends \<open>Generate\<close> with the same error and the module's state untouched.\<close>

lemma Generate_assembly_failed:
  "NewGeneratorRequest im req = Inl f \<Longrightarrow> Generate im Module ctx req st = (Inl f, st)"
  by (simp add: Generate_def)

subsection \<open>The instance, evaluated\<close>

lemma example_layers_decode:
  "unmarshal_error example_Unmarshal None z = None"
  "b \<noteq> ''{'' \<Longrightarrow> unmarshal_error example_Unmarshal (Some b) z = None"
  "unmarshal_error example_Unmarshal (Some ''{'') z
     = Some (New ''yaml: line 1: did not find expected node content'')"
  by (simp_all add: unmarshal_error_def example_Unmarshal_def)

lemma example_request_assembles:
  "NewGeneratorRequest example_deps (Some example_request)
     = Inr (typed_request example_deps example_request)"
  by (simp add: NewGeneratorRequest_def typed_request_def example_deps_def example_request_def
        unmarshal_layer_def unmarshal_value_def)

section \<open>The claims\<close>

text \<open>
  C1 (as amended). For every wire request whose five layers all decode successfully,
  \<open>NewGeneratorRequest\<close> returns the assembled request exactly when the re-serialization
  of that request for the log succeeds. When that \<^verbatim>\<open>yaml.Marshal\<close> fails, the call
  returns no request and the error \<^verbatim>\<open>marshal new generator request failed\<close> wrapping
  the marshal error: the diagnostic step is part of the function's contract in the code.
\<close>

theorem NewGeneratorRequest_diagnostic_marshal:
  assumes "\<forall>L. layer_error im r L = None"
  shows "(\<forall>out. deps.yaml_Marshal_GeneratorRequest im (typed_request im r) = Inr out \<longrightarrow>
            NewGeneratorRequest im (Some r) = Inr (typed_request im r))
       \<and> (\<forall>err. deps.yaml_Marshal_GeneratorRequest im (typed_request im r) = Inl err \<longrightarrow>
            NewGeneratorRequest im (Some r)
              = Inl (Error (ErrorfW ''marshal new generator request failed. %w'' err)))"
  using NewGeneratorRequest_decoded[OF assms] by simp

theorem NewGeneratorRequest_diagnostic_marshal_witness:
  "layer_error example_deps example_request_full Layer_Workload = None
   \<and> layer_error example_deps example_request_full Layer_DevConfig = None
   \<and> layer_error example_deps example_request_full Layer_PlatformConfig = None
   \<and> layer_error example_deps example_request_full Layer_Context = None
   \<and> layer_error example_deps example_request_full Layer_SecretStore = None
   \<and> deps.yaml_Marshal_GeneratorRequest example_deps
        (typed_request example_deps example_request_full) = Inr (Some ''a'')
   \<and> NewGeneratorRequest example_deps (Some example_request_full)
        = Inr \<lparr>GeneratorRequest.Project = ''p'', Stack = ''s'', App = ''a'', Workload = ''w'',
               DevConfig = ''d'', PlatformConfig = ''pc'', Context = ''c'',
               SecretStore = ''ss''\<rparr>"
proof -
  have ok: "layer_error example_deps example_request_full L = None" for L
    by (cases L) (simp_all add: example_deps_def example_request_full_def example_layers_decode)
  have t: "typed_request example_deps example_request_full
        = \<lparr>GeneratorRequest.Project = ''p'', Stack = ''s'', App = ''a'', Workload = ''w'',
           DevConfig = ''d'', PlatformConfig = ''pc'', Context = ''c'', SecretStore = ''ss''\<rparr>"
    by (simp add: typed_request_def example_deps_def example_request_full_def
          unmarshal_value_def example_Unmarshal_def)
  have m: "deps.yaml_Marshal_GeneratorRequest example_deps
             (typed_request example_deps example_request_full) = Inr (Some ''a'')"
    unfolding t by (simp add: example_deps_def)
  from NewGeneratorRequest_diagnostic_marshal[of example_deps example_request_full] ok m
  have "NewGeneratorRequest example_deps (Some example_request_full)
          = Inr (typed_request example_deps example_request_full)"
    by blast
  with ok m t show ?thesis by (simp del: layer_error.simps)
qed

text \<open>
  C1 as stated fails: with all five layers present and well-formed and a \<^verbatim>\<open>yaml.Marshal\<close>
  that fails on the assembled request, the call returns an error and no request.
\<close>

theorem NewGeneratorRequest_diagnostic_failure_counterexample:
  "layer_error example_deps_failing_log example_request_full Layer_Workload = None
   \<and> layer_error example_deps_failing_log example_request_full Layer_DevConfig = None
   \<and> layer_error example_deps_failing_log example_request_full Layer_PlatformConfig = None
   \<and> layer_error example_deps_failing_log example_request_full Layer_Context = None
   \<and> layer_error example_deps_failing_log example_request_full Layer_SecretStore = None
   \<and> NewGeneratorRequest example_deps_failing_log (Some example_request_full)
        = Inl (Error (ErrorfW ''marshal new generator request failed. %w''
                        (New ''cannot marshal'')))"
  by (simp add: NewGeneratorRequest_def example_deps_failing_log_def example_deps_def
        example_request_full_def unmarshal_layer_def unmarshal_error_def example_Unmarshal_def)

text \<open>
  C2. The two variants differ on an absent workload. For every wire request of the
  earlier variant whose workload bytes are nil, \<open>NewGeneratorRequest_early\<close> returns the
  error \<^verbatim>\<open>workload in the request is nil\<close>. For every wire request of the current
  variant whose workload bytes are nil, \<open>NewGeneratorRequest\<close> gives the workload layer
  its zero value and does not fail on that account: every request it returns has the
  zero workload, every error it returns is the decode error of one of the other four
  layers or the failure of the final re-serialization, and when the other four layers
  decode and that re-serialization succeeds, it returns the assembled request.
\<close>

theorem absent_workload_required_then_optional:
  "(proto_GeneratorRequest_early.Workload r0 = None \<longrightarrow>
      NewGeneratorRequest_early im0 (Some r0)
        = Inl (Error (Errorf ''workload in the request is nil'')))
   \<and> (proto_GeneratorRequest.Workload r = None \<longrightarrow>
        (\<forall>request. NewGeneratorRequest im (Some r) = Inr request \<longrightarrow>
            GeneratorRequest.Workload request = deps.zero_Accessory im)
      \<and> (\<forall>f. NewGeneratorRequest im (Some r) = Inl f \<longrightarrow>
            (\<exists>L e. L \<noteq> Layer_Workload \<and> layer_error im r L = Some e
                  \<and> f = Error (ErrorfW (layer_message L) e))
          \<or> (\<exists>e. f = Error (ErrorfW ''marshal new generator request failed. %w'' e)))
      \<and> ((\<forall>L. L \<noteq> Layer_Workload \<longrightarrow> layer_error im r L = None)
          \<and> (\<exists>out. deps.yaml_Marshal_GeneratorRequest im (typed_request im r) = Inr out) \<longrightarrow>
            NewGeneratorRequest im (Some r) = Inr (typed_request im r)))"
proof (intro conjI impI)
  assume "proto_GeneratorRequest_early.Workload r0 = None"
  then show "NewGeneratorRequest_early im0 (Some r0)
               = Inl (Error (Errorf ''workload in the request is nil''))"
    by (simp add: NewGeneratorRequest_early_def)
next
  assume w: "proto_GeneratorRequest.Workload r = None"
  then have wl: "layer_error im r Layer_Workload = None"
    by (simp add: unmarshal_error_def)
  have tw: "GeneratorRequest.Workload (typed_request im r) = deps.zero_Accessory im"
    using w by (simp add: typed_request_def unmarshal_value_def)
  note out = NewGeneratorRequest_outcome[of im r]
  show "\<forall>request. NewGeneratorRequest im (Some r) = Inr request \<longrightarrow>
          GeneratorRequest.Workload request = deps.zero_Accessory im"
    using out tw by (auto split: sum.splits)
  show "\<forall>f. NewGeneratorRequest im (Some r) = Inl f \<longrightarrow>
            (\<exists>L e. L \<noteq> Layer_Workload \<and> layer_error im r L = Some e
                  \<and> f = Error (ErrorfW (layer_message L) e))
          \<or> (\<exists>e. f = Error (ErrorfW ''marshal new generator request failed. %w'' e))"
  proof (intro allI impI)
    fix f assume f: "NewGeneratorRequest im (Some r) = Inl f"
    from out show "(\<exists>L e. L \<noteq> Layer_Workload \<and> layer_error im r L = Some e
                  \<and> f = Error (ErrorfW (layer_message L) e))
          \<or> (\<exists>e. f = Error (ErrorfW ''marshal new generator request failed. %w'' e))"
    proof (elim disjE exE conjE)
      fix L e
      assume "layer_error im r L = Some e"
        and "NewGeneratorRequest im (Some r) = Inl (Error (ErrorfW (layer_message L) e))"
      with wl f show ?thesis by (intro disjI1 exI[of _ L] exI[of _ e]) auto
    next
      assume "NewGeneratorRequest im (Some r) =
        (case deps.yaml_Marshal_GeneratorRequest im (typed_request im r) of
           Inl err \<Rightarrow> Inl (Error (ErrorfW ''marshal new generator request failed. %w'' err))
         | Inr out \<Rightarrow> Inr (typed_request im r))"
      with f show ?thesis by (auto split: sum.splits)
    qed
  qed
  assume "(\<forall>L. L \<noteq> Layer_Workload \<longrightarrow> layer_error im r L = None)
          \<and> (\<exists>out. deps.yaml_Marshal_GeneratorRequest im (typed_request im r) = Inr out)"
  then have all: "\<forall>L. layer_error im r L = None"
    and m: "\<exists>out. deps.yaml_Marshal_GeneratorRequest im (typed_request im r) = Inr out"
    using wl by metis+
  from NewGeneratorRequest_decoded[OF all] m
  show "NewGeneratorRequest im (Some r) = Inr (typed_request im r)" by auto
qed

theorem absent_workload_required_then_optional_witness:
  "proto_GeneratorRequest_early.Workload example_request_early_no_workload = None
   \<and> NewGeneratorRequest_early example_deps_early (Some example_request_early_no_workload)
       = Inl (Error (Errorf ''workload in the request is nil''))
   \<and> proto_GeneratorRequest.Workload example_request = None
   \<and> NewGeneratorRequest example_deps (Some example_request)
       = Inr (typed_request example_deps example_request)
   \<and> GeneratorRequest.Workload (typed_request example_deps example_request)
       = deps.zero_Accessory example_deps"
proof -
  have e: "proto_GeneratorRequest_early.Workload example_request_early_no_workload = None"
    by (simp add: example_request_early_no_workload_def)
  have c: "proto_GeneratorRequest.Workload example_request = None"
    by (simp add: example_request_def)
  from absent_workload_required_then_optional
         [of example_request_early_no_workload example_deps_early example_request example_deps]
       e c example_request_assembles
  show ?thesis by simp
qed

text \<open>
  C3. A nil wire request must be rejected with an error, with the module never invoked
  and without a crash. The earlier variant has no nil test: \<open>NewGeneratorRequest_early\<close>
  dereferences the nil request at \<^verbatim>\<open>req.Workload\<close> and panics, and \<open>Generate_early\<close>
  panics with it. (The current variant returns \<^verbatim>\<open>empty generator request\<close>, see
  \<open>NewGeneratorRequest_nil\<close> and \<open>Generate_nil\<close>.)
\<close>

theorem NewGeneratorRequest_early_nil_panics:
  "NewGeneratorRequest_early im None
     = Inl (Panic ''invalid memory address or nil pointer dereference'')
   \<and> Generate_early im Module ctx None st
     = (Inl (Panic ''invalid memory address or nil pointer dereference''), st)"
  by (simp add: NewGeneratorRequest_early_def Generate_early_def)

text \<open>
  C4. Whenever the module's generation function is reached and returns a nil result,
  \<open>Generate\<close> returns a pointer to the empty wire response (no resources, no patch) and
  no error, whatever the request held.
\<close>

theorem Generate_nil_result_gives_EmptyResponse:
  assumes "NewGeneratorRequest im req = Inr request"
    and "Module ctx request st = (Inr None, st')"
  shows "Generate im Module ctx req st = (Inr (Some EmptyResponse), st')
       \<and> elems (proto_GeneratorResponse.Resources EmptyResponse) = []
       \<and> proto_GeneratorResponse.Patcher EmptyResponse = None"
  using assms by (simp add: Generate_def EmptyResponse_def)

theorem Generate_nil_result_gives_EmptyResponse_witness:
  "NewGeneratorRequest example_deps (Some example_request_full)
     = Inr (typed_request example_deps example_request_full)
   \<and> example_module None () (typed_request example_deps example_request_full) 0
     = (Inr None, Suc 0)
   \<and> Generate example_deps (example_module None) () (Some example_request_full) 0
     = (Inr (Some \<lparr>proto_GeneratorResponse.Resources = None, Patcher = None\<rparr>), Suc 0)"
proof -
  have a: "NewGeneratorRequest example_deps (Some example_request_full)
             = Inr (typed_request example_deps example_request_full)"
    unfolding NewGeneratorRequest_def typed_request_def
    by (simp add: example_deps_def example_request_full_def unmarshal_layer_def
          unmarshal_value_def example_Unmarshal_def)
  have m: "example_module None () (typed_request example_deps example_request_full) 0
             = (Inr None, Suc 0)"
    by (simp add: example_module_def)
  from Generate_nil_result_gives_EmptyResponse
         [of example_deps "Some example_request_full"
             "typed_request example_deps example_request_full"
             "example_module None" "()" 0 "Suc 0"] a m
  show ?thesis
    by (simp add: EmptyResponse_def)
qed

text \<open>
  C5. Let the module return a result with N resource descriptors, each of which
  \<^verbatim>\<open>yaml.Marshal\<close> encodes, \<open>outs\<close> being the N encodings in the order of the
  descriptors. Then every wire response \<open>Generate\<close> returns holds exactly \<open>outs\<close>: N
  entries, in that order, the i-th the encoding of the i-th descriptor. \<open>Generate\<close> does
  return one when there is no patch, or when the patch encodes as well.
\<close>

theorem Generate_preserves_resources:
  assumes "NewGeneratorRequest im req = Inr request"
    and "Module ctx request st = (Inr (Some response), st')"
    and "list_all2 (\<lambda>res out. deps.yaml_Marshal_Resource im res = Inr out)
           (elems (GeneratorResponse.Resources response)) outs"
  shows "(\<forall>wire s. Generate im Module ctx req st = (Inr wire, s) \<longrightarrow>
            (\<exists>w. wire = Some w \<and> elems (proto_GeneratorResponse.Resources w) = outs
                 \<and> length (elems (proto_GeneratorResponse.Resources w))
                     = length (elems (GeneratorResponse.Resources response))))
       \<and> (GeneratorResponse.Patcher response = None \<longrightarrow>
            (\<exists>w. Generate im Module ctx req st = (Inr (Some w), st')
                 \<and> elems (proto_GeneratorResponse.Resources w) = outs
                 \<and> proto_GeneratorResponse.Patcher w = None))
       \<and> (\<forall>p patcher. GeneratorResponse.Patcher response = Some p
              \<and> deps.yaml_Marshal_Patcher im p = Inr patcher \<longrightarrow>
            (\<exists>w. Generate im Module ctx req st = (Inr (Some w), st')
                 \<and> elems (proto_GeneratorResponse.Resources w) = outs
                 \<and> proto_GeneratorResponse.Patcher w = patcher))"
proof -
  let ?rs = "elems (GeneratorResponse.Resources response)"
  let ?resources = "if ?rs = [] then None else Some outs"
  have enc: "marshal_resources (deps.yaml_Marshal_Resource im) ?rs None = Inr ?resources"
    using marshal_resources_ok[OF assms(3), of None] by simp
  have el: "elems ?resources = outs"
    using assms(3) by auto
  have len: "length outs = length ?rs"
    using assms(3) by (simp add: list_all2_lengthD)
  have gen: "Generate im Module ctx req st =
     (case GeneratorResponse.Patcher response of
        None \<Rightarrow>
          (Inr (Some \<lparr>proto_GeneratorResponse.Resources = ?resources, Patcher = None\<rparr>), st')
      | Some p \<Rightarrow>
          (case deps.yaml_Marshal_Patcher im p of
             Inl err \<Rightarrow>
               (Inl (Error (ErrorfW ''marshal patcher failed: %w. patcher:%v'' err)), st')
           | Inr patcher \<Rightarrow>
               (Inr (Some \<lparr>proto_GeneratorResponse.Resources = ?resources,
                           Patcher = patcher\<rparr>), st')))"
    unfolding Generate_def using assms(1,2) enc by simp
  show ?thesis
    using el len unfolding gen by (auto split: option.splits sum.splits)
qed

theorem Generate_preserves_resources_witness:
  "NewGeneratorRequest example_deps (Some example_request)
     = Inr (typed_request example_deps example_request)
   \<and> example_module (Some example_response) () (typed_request example_deps example_request) 0
     = (Inr (Some example_response), Suc 0)
   \<and> list_all2 (\<lambda>res out. deps.yaml_Marshal_Resource example_deps res = Inr out)
        (elems (GeneratorResponse.Resources example_response)) [Some ''r1'', Some ''r2'']
   \<and> GeneratorResponse.Patcher example_response = Some ''patch''
   \<and> deps.yaml_Marshal_Patcher example_deps ''patch'' = Inr (Some ''patch'')
   \<and> (\<exists>w. Generate example_deps (example_module (Some example_response)) ()
              (Some example_request) 0 = (Inr (Some w), Suc 0)
          \<and> elems (proto_GeneratorResponse.Resources w) = [Some ''r1'', Some ''r2'']
          \<and> proto_GeneratorResponse.Patcher w = Some ''patch'')"
proof -
  have m: "example_module (Some example_response) ()
             (typed_request example_deps example_request) 0
           = (Inr (Some example_response), Suc 0)"
    by (simp add: example_module_def)
  have l: "list_all2 (\<lambda>res out. deps.yaml_Marshal_Resource example_deps res = Inr out)
             (elems (GeneratorResponse.Resources example_response)) [Some ''r1'', Some ''r2'']"
    by (simp add: example_response_def example_deps_def example_Marshal_def)
  have p: "GeneratorResponse.Patcher example_response = Some ''patch''
         \<and> deps.yaml_Marshal_Patcher example_deps ''patch'' = Inr (Some ''patch'')"
    by (simp add: example_response_def example_deps_def example_Marshal_def)
  from Generate_preserves_resources
         [of example_deps "Some example_request" "typed_request example_deps example_request"
             "example_module (Some example_response)" "()" 0 example_response "Suc 0"
             "[Some ''r1'', Some ''r2'']"] example_request_assembles m l p
  show ?thesis by blast
qed

text \<open>
  C6. Let the module return a result. If some resource descriptor fails to encode,
  \<open>Generate\<close> returns an error and no wire response; if descriptor K (counted from 1) is
  the first that fails, the error wraps the marshal error of descriptor K, and the
  encodings of descriptors 1 to K-1 are dropped. If all resources encode and the patch
  fails to encode, \<open>Generate\<close> returns the wrapped patch error and no wire response.
\<close>

theorem Generate_no_partial_output:
  assumes "NewGeneratorRequest im req = Inr request"
    and "Module ctx request st = (Inr (Some response), st')"
  shows "((\<exists>res \<in> set (elems (GeneratorResponse.Resources response)).
              \<exists>e. deps.yaml_Marshal_Resource im res = Inl e) \<longrightarrow>
            (\<exists>e. Generate im Module ctx req st
                    = (Inl (Error (ErrorfW ''marshal resource failed: %w. res:%v'' e)), st')))
       \<and> (\<forall>K e. 1 \<le> K \<and> K \<le> length (elems (GeneratorResponse.Resources response))
              \<and> (\<forall>i<K - 1. \<exists>out. deps.yaml_Marshal_Resource im
                                     (elems (GeneratorResponse.Resources response) ! i) = Inr out)
              \<and> deps.yaml_Marshal_Resource im
                    (elems (GeneratorResponse.Resources response) ! (K - 1)) = Inl e \<longrightarrow>
            Generate im Module ctx req st
              = (Inl (Error (ErrorfW ''marshal resource failed: %w. res:%v'' e)), st'))
       \<and> (\<forall>p e. (\<forall>res \<in> set (elems (GeneratorResponse.Resources response)).
                    \<exists>out. deps.yaml_Marshal_Resource im res = Inr out)
              \<and> GeneratorResponse.Patcher response = Some p
              \<and> deps.yaml_Marshal_Patcher im p = Inl e \<longrightarrow>
            Generate im Module ctx req st
              = (Inl (Error (ErrorfW ''marshal patcher failed: %w. patcher:%v'' e)), st'))"
proof (intro conjI impI allI)
  let ?rs = "elems (GeneratorResponse.Resources response)"
  assume "\<exists>res \<in> set ?rs. \<exists>e. deps.yaml_Marshal_Resource im res = Inl e"
  from marshal_resources_some_failure[OF this, of None] obtain e where
    "marshal_resources (deps.yaml_Marshal_Resource im) ?rs None
       = Inl (ErrorfW ''marshal resource failed: %w. res:%v'' e)" by blast
  then show "\<exists>e. Generate im Module ctx req st
                = (Inl (Error (ErrorfW ''marshal resource failed: %w. res:%v'' e)), st')"
    unfolding Generate_def using assms by simp
next
  let ?rs = "elems (GeneratorResponse.Resources response)"
  fix K e
  assume h: "1 \<le> K \<and> K \<le> length ?rs
      \<and> (\<forall>i<K - 1. \<exists>out. deps.yaml_Marshal_Resource im (?rs ! i) = Inr out)
      \<and> deps.yaml_Marshal_Resource im (?rs ! (K - 1)) = Inl e"
  then have "K - 1 < length ?rs" by linarith
  from marshal_resources_first_failure[OF this, of "deps.yaml_Marshal_Resource im" e None] h
  have "marshal_resources (deps.yaml_Marshal_Resource im) ?rs None
       = Inl (ErrorfW ''marshal resource failed: %w. res:%v'' e)" by blast
  then show "Generate im Module ctx req st
                = (Inl (Error (ErrorfW ''marshal resource failed: %w. res:%v'' e)), st')"
    unfolding Generate_def using assms by simp
next
  let ?rs = "elems (GeneratorResponse.Resources response)"
  fix p e
  assume h: "(\<forall>res \<in> set ?rs. \<exists>out. deps.yaml_Marshal_Resource im res = Inr out)
      \<and> GeneratorResponse.Patcher response = Some p
      \<and> deps.yaml_Marshal_Patcher im p = Inl e"
  then have "\<exists>outs. list_all2 (\<lambda>res out. deps.yaml_Marshal_Resource im res = Inr out) ?rs outs"
    by (intro all_encode_list_all2) blast
  then obtain outs where
    "list_all2 (\<lambda>res out. deps.yaml_Marshal_Resource im res = Inr out) ?rs outs" by blast
  from marshal_resources_ok[OF this, of None] obtain resources where
    "marshal_resources (deps.yaml_Marshal_Resource im) ?rs None = Inr resources" by simp
  then show "Generate im Module ctx req st
                = (Inl (Error (ErrorfW ''marshal patcher failed: %w. patcher:%v'' e)), st')"
    unfolding Generate_def using assms h by simp
qed

theorem Generate_no_partial_output_witness:
  "NewGeneratorRequest example_deps (Some example_request)
     = Inr (typed_request example_deps example_request)
   \<and> example_module (Some example_response_bad_resource) ()
       (typed_request example_deps example_request) 0
     = (Inr (Some example_response_bad_resource), Suc 0)
   \<and> deps.yaml_Marshal_Resource example_deps
       (elems (GeneratorResponse.Resources example_response_bad_resource) ! 0)
     = Inr (Some ''r1'')
   \<and> deps.yaml_Marshal_Resource example_deps
       (elems (GeneratorResponse.Resources example_response_bad_resource) ! (2 - 1))
     = Inl (New ''cannot marshal'')
   \<and> Generate example_deps (example_module (Some example_response_bad_resource)) ()
       (Some example_request) 0
     = (Inl (Error (ErrorfW ''marshal resource failed: %w. res:%v'' (New ''cannot marshal''))),
        Suc 0)
   \<and> example_module (Some example_response_bad_patch) ()
       (typed_request example_deps example_request) 0
     = (Inr (Some example_response_bad_patch), Suc 0)
   \<and> deps.yaml_Marshal_Resource example_deps ''r1'' = Inr (Some ''r1'')
   \<and> deps.yaml_Marshal_Resource example_deps ''r2'' = Inr (Some ''r2'')
   \<and> GeneratorResponse.Patcher example_response_bad_patch = Some ''!''
   \<and> deps.yaml_Marshal_Patcher example_deps ''!'' = Inl (New ''cannot marshal'')
   \<and> Generate example_deps (example_module (Some example_response_bad_patch)) ()
       (Some example_request) 0
     = (Inl (Error (ErrorfW ''marshal patcher failed: %w. patcher:%v'' (New ''cannot marshal''))),
        Suc 0)"
proof -
  let ?rq = "typed_request example_deps example_request"
  have m1: "example_module (Some example_response_bad_resource) () ?rq 0
              = (Inr (Some example_response_bad_resource), Suc 0)"
    and m2: "example_module (Some example_response_bad_patch) () ?rq 0
              = (Inr (Some example_response_bad_patch), Suc 0)"
    by (simp_all add: example_module_def)
  have r0: "deps.yaml_Marshal_Resource example_deps
              (elems (GeneratorResponse.Resources example_response_bad_resource) ! 0)
            = Inr (Some ''r1'')"
    and r1: "deps.yaml_Marshal_Resource example_deps
              (elems (GeneratorResponse.Resources example_response_bad_resource) ! (2 - 1))
            = Inl (New ''cannot marshal'')"
    and len: "length (elems (GeneratorResponse.Resources example_response_bad_resource)) = 3"
    by (simp_all add: example_response_bad_resource_def example_deps_def example_Marshal_def)
  have k: "(1::nat) \<le> 2
      \<and> 2 \<le> length (elems (GeneratorResponse.Resources example_response_bad_resource))
      \<and> (\<forall>i<2 - 1. \<exists>out. deps.yaml_Marshal_Resource example_deps
              (elems (GeneratorResponse.Resources example_response_bad_resource) ! i) = Inr out)
      \<and> deps.yaml_Marshal_Resource example_deps
           (elems (GeneratorResponse.Resources example_response_bad_resource) ! (2 - 1))
         = Inl (New ''cannot marshal'')"
    using r0 r1 len by simp
  have g1: "Generate example_deps (example_module (Some example_response_bad_resource)) ()
              (Some example_request) 0
            = (Inl (Error (ErrorfW ''marshal resource failed: %w. res:%v''
                             (New ''cannot marshal''))), Suc 0)"
    using Generate_no_partial_output
            [of example_deps "Some example_request" ?rq
                "example_module (Some example_response_bad_resource)" "()" 0
                example_response_bad_resource "Suc 0"] example_request_assembles m1 k
    by blast
  have e1: "deps.yaml_Marshal_Resource example_deps ''r1'' = Inr (Some ''r1'')"
    and e2: "deps.yaml_Marshal_Resource example_deps ''r2'' = Inr (Some ''r2'')"
    and pt: "GeneratorResponse.Patcher example_response_bad_patch = Some ''!''"
    and pe: "deps.yaml_Marshal_Patcher example_deps ''!'' = Inl (New ''cannot marshal'')"
    by (simp_all add: example_response_bad_patch_def example_deps_def example_Marshal_def)
  have all: "\<forall>res \<in> set (elems (GeneratorResponse.Resources example_response_bad_patch)).
               \<exists>out. deps.yaml_Marshal_Resource example_deps res = Inr out"
    using e1 e2 by (simp add: example_response_bad_patch_def)
  have g2: "Generate example_deps (example_module (Some example_response_bad_patch)) ()
              (Some example_request) 0
            = (Inl (Error (ErrorfW ''marshal patcher failed: %w. patcher:%v''
                             (New ''cannot marshal''))), Suc 0)"
    using Generate_no_partial_output
            [of example_deps "Some example_request" ?rq
                "example_module (Some example_response_bad_patch)" "()" 0
                example_response_bad_patch "Suc 0"] example_request_assembles m2 all pt pe
    by blast
  from example_request_assembles m1 m2 r0 r1 g1 e1 e2 pt pe g2 show ?thesis by blast
qed

lemma not_in_earlier: "L \<notin> set (earlier L)"
  by (cases L) (simp_all add: earlier_simps)

text \<open>
  C7. For each of the five layers: if that layer's blob is present and malformed (the
  library's \<^verbatim>\<open>Unmarshal\<close> returns the error \<open>e\<close> on it) and the other four blobs are
  absent, \<open>NewGeneratorRequest\<close> fails with the error whose format string is the one of
  that layer and of no other layer, wrapping \<open>e\<close>; \<open>Generate\<close> returns the same error
  with the module's state as it was, for every module, so the module is not invoked.
\<close>

theorem malformed_layer_is_identified:
  assumes "layer_blob L r = Some b"
    and "\<forall>L'. L' \<noteq> L \<longrightarrow> layer_blob L' r = None"
    and "layer_error im r L = Some e"
  shows "NewGeneratorRequest im (Some r) = Inl (Error (ErrorfW (layer_message L) e))
       \<and> (\<forall>L'. layer_message L' = layer_message L \<longrightarrow> L' = L)
       \<and> Generate im Module ctx (Some r) st = (Inl (Error (ErrorfW (layer_message L) e)), st)"
proof -
  have "\<forall>L' \<in> set (earlier L). layer_error im r L' = None"
  proof
    fix L' assume "L' \<in> set (earlier L)"
    then have "L' \<noteq> L" using not_in_earlier by blast
    with assms(2) have "layer_blob L' r = None" by blast
    then show "layer_error im r L' = None" by (rule layer_error_absent)
  qed
  from NewGeneratorRequest_first_failure[OF assms(3) this]
  have a: "NewGeneratorRequest im (Some r) = Inl (Error (ErrorfW (layer_message L) e))" .
  from Generate_assembly_failed[OF a]
  have g: "Generate im Module ctx (Some r) st
             = (Inl (Error (ErrorfW (layer_message L) e)), st)" .
  from a g layer_message_inj show ?thesis by blast
qed

theorem malformed_layer_is_identified_witness:
  "layer_blob Layer_Context example_request_bad_context = Some ''{''
   \<and> layer_blob Layer_Workload example_request_bad_context = None
   \<and> layer_blob Layer_DevConfig example_request_bad_context = None
   \<and> layer_blob Layer_PlatformConfig example_request_bad_context = None
   \<and> layer_blob Layer_SecretStore example_request_bad_context = None
   \<and> layer_error example_deps example_request_bad_context Layer_Context
       = Some (New ''yaml: line 1: did not find expected node content'')
   \<and> NewGeneratorRequest example_deps (Some example_request_bad_context)
       = Inl (Error (ErrorfW ''unmarshal context failed. %w''
                       (New ''yaml: line 1: did not find expected node content'')))
   \<and> Generate example_deps (example_module (Some example_response)) ()
       (Some example_request_bad_context) 0
       = (Inl (Error (ErrorfW ''unmarshal context failed. %w''
                        (New ''yaml: line 1: did not find expected node content''))), 0)"
proof -
  have b: "layer_blob Layer_Context example_request_bad_context = Some ''{''"
    and b1: "layer_blob Layer_Workload example_request_bad_context = None"
    and b2: "layer_blob Layer_DevConfig example_request_bad_context = None"
    and b3: "layer_blob Layer_PlatformConfig example_request_bad_context = None"
    and b4: "layer_blob Layer_SecretStore example_request_bad_context = None"
    by (simp_all add: example_request_bad_context_def example_request_def)
  have others: "\<forall>L'. L' \<noteq> Layer_Context \<longrightarrow> layer_blob L' example_request_bad_context = None"
  proof (intro allI impI)
    fix L' :: layer assume "L' \<noteq> Layer_Context"
    then show "layer_blob L' example_request_bad_context = None"
      using b1 b2 b3 b4 by (cases L') simp_all
  qed
  have e: "layer_error example_deps example_request_bad_context Layer_Context
             = Some (New ''yaml: line 1: did not find expected node content'')"
    by (simp add: example_request_bad_context_def example_request_def example_deps_def
          example_layers_decode)
  from malformed_layer_is_identified
         [of Layer_Context example_request_bad_context "''{''" example_deps
             "New ''yaml: line 1: did not find expected node content''"
             "example_module (Some example_response)" "()" 0, OF b others e]
       b b1 b2 b3 b4 e
  show ?thesis by (simp del: layer_error.simps layer_blob.simps)
qed

text \<open>
  C8. Decoding is first-failure-wins. If a layer is malformed and every layer before it
  in the decode order (workload, devConfig, platformConfig, context, secretStore)
  is absent or decodes, then \<open>NewGeneratorRequest\<close> returns the error of that layer alone,
  wrapping that layer's decode error, whatever the later layers hold: no other layer is
  named in the result, and nothing is collected from the later ones.
\<close>

theorem first_failing_layer_wins:
  assumes "layer_error im r L = Some e"
    and "\<forall>L' \<in> set (earlier L). layer_error im r L' = None"
  shows "NewGeneratorRequest im (Some r) = Inl (Error (ErrorfW (layer_message L) e))
       \<and> (\<forall>L' e'. L' \<noteq> L \<longrightarrow>
            NewGeneratorRequest im (Some r) \<noteq> Inl (Error (ErrorfW (layer_message L') e')))"
proof -
  from NewGeneratorRequest_first_failure[OF assms]
  have a: "NewGeneratorRequest im (Some r) = Inl (Error (ErrorfW (layer_message L) e))" .
  have "NewGeneratorRequest im (Some r) \<noteq> Inl (Error (ErrorfW (layer_message L') e'))"
    if "L' \<noteq> L" for L' e'
  proof
    assume "NewGeneratorRequest im (Some r) = Inl (Error (ErrorfW (layer_message L') e'))"
    with a have "layer_message L = layer_message L'" by simp
    then have "L = L'" by (rule layer_message_inj)
    with that show False by simp
  qed
  with a show ?thesis by blast
qed

theorem first_failing_layer_wins_witness:
  "layer_error example_deps example_request_three_bad Layer_Workload = None
   \<and> layer_error example_deps example_request_three_bad Layer_DevConfig
       = Some (New ''yaml: line 1: did not find expected node content'')
   \<and> layer_error example_deps example_request_three_bad Layer_Context
       = Some (New ''yaml: line 1: did not find expected node content'')
   \<and> layer_error example_deps example_request_three_bad Layer_SecretStore
       = Some (New ''yaml: line 1: did not find expected node content'')
   \<and> NewGeneratorRequest example_deps (Some example_request_three_bad)
       = Inl (Error (ErrorfW ''unmarshal dev config failed. %w''
                       (New ''yaml: line 1: did not find expected node content'')))
   \<and> NewGeneratorRequest example_deps (Some example_request_three_bad)
       \<noteq> Inl (Error (ErrorfW (layer_message Layer_Context)
                       (New ''yaml: line 1: did not find expected node content'')))
   \<and> NewGeneratorRequest example_deps (Some example_request_three_bad)
       \<noteq> Inl (Error (ErrorfW (layer_message Layer_SecretStore)
                       (New ''yaml: line 1: did not find expected node content'')))"
proof -
  have w: "layer_error example_deps example_request_three_bad Layer_Workload = None"
    and d: "layer_error example_deps example_request_three_bad Layer_DevConfig
              = Some (New ''yaml: line 1: did not find expected node content'')"
    and c: "layer_error example_deps example_request_three_bad Layer_Context
              = Some (New ''yaml: line 1: did not find expected node content'')"
    and s: "layer_error example_deps example_request_three_bad Layer_SecretStore
              = Some (New ''yaml: line 1: did not find expected node content'')"
    by (simp_all add: example_request_three_bad_def example_deps_def example_layers_decode)
  have first: "\<forall>L' \<in> set (earlier Layer_DevConfig).
                 layer_error example_deps example_request_three_bad L' = None"
    using w by (simp add: earlier_simps del: layer_error.simps)
  note inst = first_failing_layer_wins[OF d first]
  have r: "NewGeneratorRequest example_deps (Some example_request_three_bad)
             = Inl (Error (ErrorfW ''unmarshal dev config failed. %w''
                             (New ''yaml: line 1: did not find expected node content'')))"
    using inst by simp
  have n1: "NewGeneratorRequest example_deps (Some example_request_three_bad)
              \<noteq> Inl (Error (ErrorfW (layer_message Layer_Context)
                              (New ''yaml: line 1: did not find expected node content'')))"
    and n2: "NewGeneratorRequest example_deps (Some example_request_three_bad)
              \<noteq> Inl (Error (ErrorfW (layer_message Layer_SecretStore)
                              (New ''yaml: line 1: did not find expected node content'')))"
    using inst by blast+
  from w d c s r n1 n2 show ?thesis by blast
qed



text \<open>
  C10. In the earlier variant the runtime-config layer never reaches the assembled
  request: on every wire request for which \<open>NewGeneratorRequest_early\<close> returns a
  request, the \<open>RuntimeConfig\<close> field of that request is nil. The blob is unmarshalled
  into the nil pointer \<^verbatim>\<open>rc\<close>, and \<^verbatim>\<open>rc\<close> is what the request is built from.
\<close>

theorem NewGeneratorRequest_early_drops_RuntimeConfig:
  assumes "NewGeneratorRequest_early im req = Inr request"
  shows "GeneratorRequest_early.RuntimeConfig request = None"
  using assms unfolding NewGeneratorRequest_early_def
  by (auto simp: Let_def split: option.splits sum.splits fault.splits)

theorem NewGeneratorRequest_early_drops_RuntimeConfig_witness:
  "proto_GeneratorRequest_early.RuntimeConfig example_request_early = Some []
   \<and> NewGeneratorRequest_early example_deps_early (Some example_request_early)
       = Inr \<lparr>GeneratorRequest_early.Project = ''p'', Stack = ''s'', App = ''a'',
              Workload = Some ''w'', DevModuleConfig = [], PlatformModuleConfig = [],
              RuntimeConfig = None\<rparr>
   \<and> GeneratorRequest_early.RuntimeConfig
       \<lparr>GeneratorRequest_early.Project = ''p'', Stack = ''s'', App = ''a'',
        Workload = Some ''w'', DevModuleConfig = [], PlatformModuleConfig = [],
        RuntimeConfig = (None :: string option)\<rparr> = None"
proof -
  have r: "NewGeneratorRequest_early example_deps_early (Some example_request_early)
       = Inr \<lparr>GeneratorRequest_early.Project = ''p'', Stack = ''s'', App = ''a'',
              Workload = Some ''w'', DevModuleConfig = [], PlatformModuleConfig = [],
              RuntimeConfig = None\<rparr>"
    unfolding NewGeneratorRequest_early_def
    by (simp add: example_deps_early_def example_request_early_def unmarshal_layer_def
          example_Unmarshal_def)
  from NewGeneratorRequest_early_drops_RuntimeConfig[OF r] r show ?thesis
    by (simp add: example_request_early_def)
qed

end
